theory Spec2Isabelle
  imports Complex_Main
begin

section \<open>Python values\<close>

text \<open>
  The program is \<^verbatim>\<open>streamlit_app.py\<close>. A Python \<^verbatim>\<open>str\<close> is a sequence of Unicode
  code points, modelled as a list of naturals; \<^verbatim>\<open>bytes\<close> are a list of 8-bit characters.
  \<open>S\<close> embeds the ASCII literals of the source.
\<close>

type_synonym pystr = "nat list"

type_synonym bytes = "char list"

definition S :: "string \<Rightarrow> pystr" where
  "S s = map of_char s"

text \<open>
  The values that end up in a cell of a data frame: a string, a boolean, \<^verbatim>\<open>None\<close>, and
  the \<^verbatim>\<open>NaN\<close> pandas stores where a dictionary lacks a column.
\<close>

datatype pyval = PyStr pystr | PyBool bool | PyNone | PyNaN

text \<open>The exceptions the program can meet. Only the first two are caught by it.\<close>

datatype exn =
    ParseError pystr
  | RequestException pystr
  | KeyError pystr
  | UnicodeEncodeError nat
  | OtherError pystr

text \<open>
  \<^verbatim>\<open>str.lower()\<close>. The program lower-cases one string only, to compare it with
  \<^verbatim>\<open>"true"\<close>. ASCII capitals are mapped to their small letters; a code point outside
  ASCII is kept, which the comparison cannot tell from Python's full mapping, because no
  code point outside ASCII has a lower-case form that holds a letter of \<^verbatim>\<open>"true"\<close>.
\<close>

definition lower_cp :: "nat \<Rightarrow> nat" where
  "lower_cp c = (if 65 \<le> c \<and> c \<le> 90 then c + 32 else c)"

definition py_lower :: "pystr \<Rightarrow> pystr" where
  "py_lower s = map lower_cp s"

text \<open>\<^verbatim>\<open>str(v)\<close>, as an f-string formats a value.\<close>

fun py_str :: "pyval \<Rightarrow> pystr" where
  "py_str (PyStr s) = s"
| "py_str (PyBool b) = (if b then S ''True'' else S ''False'')"
| "py_str PyNone = S ''None''"
| "py_str PyNaN = S ''nan''"

section \<open>ElementTree elements\<close>

text \<open>
  An \<^verbatim>\<open>xml.etree.ElementTree.Element\<close>: its tag in the form \<^verbatim>\<open>{uri}local\<close>, its attribute
  dictionary, its text (\<^verbatim>\<open>None\<close> when the element has no character data before its first
  child) and its children in document order.
\<close>

datatype element =
  Element (tag: pystr) (attrib: "pystr \<rightharpoonup> pystr") (elem_text: "pystr option")
    (children: "element list")

text \<open>\<^verbatim>\<open>Element.iter()\<close>: the element itself, then its subtree, in document order.\<close>

fun iter :: "element \<Rightarrow> element list" where
  "iter (Element t a x cs) = Element t a x cs # concat (map iter cs)"

text \<open>
  \<^verbatim>\<open>elem.findall(".//prefix:local", namespaces)\<close>: the path is the context element
  followed by a descendant step, which runs \<^verbatim>\<open>elem.iter(tag)\<close> and leaves out \<^verbatim>\<open>elem\<close>
  itself. The prefix is replaced by the URI the \<^verbatim>\<open>namespaces\<close> dictionary gives it.
\<close>

definition findall :: "pystr \<Rightarrow> element \<Rightarrow> element list" where
  "findall t elem = filter (\<lambda>e. tag e = t) (tl (iter elem))"

definition qualified_tag :: "string \<Rightarrow> string \<Rightarrow> pystr" where
  "qualified_tag uri local_name = S (''{'' @ uri @ ''}'' @ local_name)"

definition STRUCTURE :: string where
  "STRUCTURE = ''http://www.sdmx.org/resources/sdmxml/schemas/v2_1/structure''"

definition COMMON :: string where
  "COMMON = ''http://www.sdmx.org/resources/sdmxml/schemas/v2_1/common''"

definition XML_LANG :: pystr where
  "XML_LANG = S ''{http://www.w3.org/XML/1998/namespace}lang''"

definition API_ENDPOINT :: pystr where
  "API_ENDPOINT = S ''https://stats-nsi-stable.pacificdata.org/rest/codelist?detail=allstubs''"

text \<open>\<^verbatim>\<open>d.get(key, default)\<close> on the attribute dictionary.\<close>

definition attrib_get :: "element \<Rightarrow> pystr \<Rightarrow> pystr \<Rightarrow> pystr" where
  "attrib_get e k d = (case attrib e k of Some v \<Rightarrow> v | None \<Rightarrow> d)"

section \<open>Data frames\<close>

text \<open>
  A \<^verbatim>\<open>pandas.DataFrame\<close> as the program uses it: column labels and rows of cells.
  \<^verbatim>\<open>pd.DataFrame(records)\<close> on a list of dictionaries takes as columns the keys in the
  order in which they first occur, and fills a cell a dictionary has no key for with NaN.
  On the empty list, as for \<^verbatim>\<open>pd.DataFrame()\<close>, the frame has no column and no row.
\<close>

record dataframe =
  columns :: "pystr list"
  rows :: "pyval list list"

fun first_seen :: "'a list \<Rightarrow> 'a list \<Rightarrow> 'a list" where
  "first_seen seen [] = []"
| "first_seen seen (k # ks) =
     (if k \<in> set seen then first_seen seen ks else k # first_seen (k # seen) ks)"

definition dict_cell :: "(pystr \<times> pyval) list \<Rightarrow> pystr \<Rightarrow> pyval" where
  "dict_cell d c = (case map_of d c of Some v \<Rightarrow> v | None \<Rightarrow> PyNaN)"

definition pd_DataFrame :: "(pystr \<times> pyval) list list \<Rightarrow> dataframe" where
  "pd_DataFrame records =
     (let cols = first_seen [] (concat (map (map fst) records))
      in \<lparr>columns = cols, rows = map (\<lambda>d. map (dict_cell d) cols) records\<rparr>)"

section \<open>The two parsers\<close>

text \<open>
  The inner loop of both parsers (source lines 42-47 and 92-97):
  \<^verbatim>\<open>names[lang] = name_elem.text\<close> for every descendant \<^verbatim>\<open>common:Name\<close>.
  The dictionary maps a language tag to a text that may be \<^verbatim>\<open>None\<close>.
\<close>

type_synonym names_dict = "pystr \<rightharpoonup> pystr option"

definition lang_of :: "element \<Rightarrow> pystr" where
  "lang_of name_elem = attrib_get name_elem XML_LANG (S ''unknown'')"

fun names_loop :: "element list \<Rightarrow> names_dict \<Rightarrow> names_dict" where
  "names_loop [] names = names"
| "names_loop (name_elem # rest) names =
     names_loop rest (names(lang_of name_elem \<mapsto> elem_text name_elem))"

definition extract_names :: "element \<Rightarrow> names_dict" where
  "extract_names e = names_loop (findall (qualified_tag COMMON ''Name'') e) Map.empty"

text \<open>\<^verbatim>\<open>names.get(lang, "N/A")\<close>: the default only when the key is absent.\<close>

definition names_get :: "names_dict \<Rightarrow> pystr \<Rightarrow> pystr \<Rightarrow> pyval" where
  "names_get names k d =
     (case names k of None \<Rightarrow> PyStr d | Some None \<Rightarrow> PyNone | Some (Some s) \<Rightarrow> PyStr s)"

text \<open>The body of the registry loop (source lines 35-58): one dictionary per Codelist.\<close>

definition codelist_record :: "element \<Rightarrow> (pystr \<times> pyval) list" where
  "codelist_record codelist =
     (let codelist_id = attrib_get codelist (S ''id'') (S ''Unknown ID'');
          agency_id = attrib_get codelist (S ''agencyID'') (S ''Unknown Agency'');
          version = attrib_get codelist (S ''version'') (S ''Unknown Version'');
          is_final = (py_lower (attrib_get codelist (S ''isFinal'') (S ''Unknown'')) = S ''true'');
          structure_url = attrib_get codelist (S ''structureURL'') (S ''Unknown URL'');
          names = extract_names codelist
      in [(S ''Codelist ID'', PyStr codelist_id),
          (S ''Agency ID'', PyStr agency_id),
          (S ''Version'', PyStr version),
          (S ''Is Final'', PyBool is_final),
          (S ''Structure URL'', PyStr structure_url),
          (S ''Name (en)'', names_get names (S ''en'') (S ''N/A'')),
          (S ''Name (fr)'', names_get names (S ''fr'') (S ''N/A''))])"

fun codelist_loop ::
  "element list \<Rightarrow> (pystr \<times> pyval) list list \<Rightarrow> (pystr \<times> pyval) list list" where
  "codelist_loop [] codelist_data = codelist_data"
| "codelist_loop (codelist # rest) codelist_data =
     codelist_loop rest (codelist_data @ [codelist_record codelist])"

text \<open>The body of the detail loop (source lines 91-103): one dictionary per Code.\<close>

definition code_record :: "element \<Rightarrow> (pystr \<times> pyval) list" where
  "code_record code =
     (let code_id = attrib_get code (S ''id'') (S ''Unknown Code'');
          names = extract_names code
      in [(S ''Code ID'', PyStr code_id),
          (S ''Name (en)'', names_get names (S ''en'') (S ''N/A'')),
          (S ''Name (fr)'', names_get names (S ''fr'') (S ''N/A''))])"

fun code_loop ::
  "element list \<Rightarrow> (pystr \<times> pyval) list list \<Rightarrow> (pystr \<times> pyval) list list" where
  "code_loop [] items = items"
| "code_loop (code # rest) items = code_loop rest (items @ [code_record code])"

text \<open>
  What the program shows with \<^verbatim>\<open>st.error\<close>. A function that writes to the page returns
  the messages it wrote beside its value.
\<close>

datatype ui_event = StError pystr

text \<open>
  \<^verbatim>\<open>ET.fromstring\<close> and \<^verbatim>\<open>requests.get\<close> belong to libraries, so both parsers take them
  as parameters: \<open>fromstring\<close> maps the fetched content to the root element or to the
  exception it raises (\<^verbatim>\<open>ET.ParseError\<close> with the diagnostic of expat when the content is
  not well-formed), and \<open>requests_get\<close> stands for lines 22-24 (the request,
  \<^verbatim>\<open>raise_for_status\<close> and \<^verbatim>\<open>.content\<close>). The type \<open>'c\<close> of the content is left open.

  An exception raised in the \<^verbatim>\<open>try\<close> block is handled by the matching \<^verbatim>\<open>except\<close> clause,
  which reports it and returns the empty frame; any other exception leaves the function.
\<close>

definition fetch_codelists_from_xml ::
  "(pystr \<Rightarrow> exn + 'c) \<Rightarrow> ('c \<Rightarrow> exn + element) \<Rightarrow> exn + dataframe \<times> ui_event list" where
  "fetch_codelists_from_xml requests_get fromstring =
     (case (case requests_get API_ENDPOINT of
              Inl e \<Rightarrow> Inl e
            | Inr xml_content \<Rightarrow>
                (case fromstring xml_content of
                   Inl e \<Rightarrow> Inl e
                 | Inr root_elem \<Rightarrow>
                     Inr (pd_DataFrame
                            (codelist_loop (findall (qualified_tag STRUCTURE ''Codelist'') root_elem) []))))
      of
        Inr df \<Rightarrow> Inr (df, [])
      | Inl (ParseError e) \<Rightarrow> Inr (pd_DataFrame [], [StError (S ''Error parsing XML: '' @ e)])
      | Inl (RequestException e) \<Rightarrow>
          Inr (pd_DataFrame [], [StError (S ''Error fetching data from API: '' @ e)])
      | Inl e \<Rightarrow> Inl e)"

definition parse_codelist_items ::
  "('c \<Rightarrow> exn + element) \<Rightarrow> 'c \<Rightarrow> exn + dataframe \<times> ui_event list" where
  "parse_codelist_items fromstring xml_content =
     (case (case fromstring xml_content of
              Inl e \<Rightarrow> Inl e
            | Inr root_elem \<Rightarrow>
                Inr (pd_DataFrame (code_loop (findall (qualified_tag STRUCTURE ''Code'') root_elem) [])))
      of
        Inr df \<Rightarrow> Inr (df, [])
      | Inl (ParseError e) \<Rightarrow>
          Inr (pd_DataFrame [], [StError (S ''Error parsing codelist XML: '' @ e)])
      | Inl e \<Rightarrow> Inl e)"

section \<open>The exports\<close>

subsection \<open>Delimited text\<close>

text \<open>
  \<^verbatim>\<open>DataFrame.to_csv(buffer, index=False)\<close> hands the column labels, then every row, to
  a \<^verbatim>\<open>csv.writer\<close> with the default dialect of pandas: comma, double quote, minimal
  quoting, line feed as the line terminator. A missing value (\<^verbatim>\<open>None\<close>, NaN) is written
  as the empty string. The \<^verbatim>\<open>encoding\<close> argument plays no part in the text written to a
  \<^verbatim>\<open>StringIO\<close>, so the model has none.
\<close>

fun csv_value :: "pyval \<Rightarrow> pystr" where
  "csv_value (PyStr s) = s"
| "csv_value (PyBool b) = py_str (PyBool b)"
| "csv_value PyNone = []"
| "csv_value PyNaN = []"

definition csv_table :: "dataframe \<Rightarrow> pystr list list" where
  "csv_table df = columns df # map (map csv_value) (rows df)"

text \<open>
  Minimal quoting: a field that holds the delimiter (44), the quote character (34), a
  line feed (10) or a carriage return (13) is put in quotes, with every quote doubled.
\<close>

definition special :: "nat \<Rightarrow> bool" where
  "special c = (c = 44 \<or> c = 34 \<or> c = 10 \<or> c = 13)"

definition quote_field :: "pystr \<Rightarrow> pystr" where
  "quote_field f =
     (if list_ex special f
      then [34] @ concat (map (\<lambda>c. if c = 34 then [34, 34] else [c]) f) @ [34]
      else f)"

fun join_fields :: "pystr list \<Rightarrow> pystr" where
  "join_fields [] = []"
| "join_fields [f] = f"
| "join_fields (f # g # fs) = f @ [44] @ join_fields (g # fs)"

text \<open>A row whose only field is empty is written as a pair of quotes.\<close>

definition writerow :: "pystr list \<Rightarrow> pystr" where
  "writerow flds =
     (if flds = [[]] then [34, 34] else join_fields (map quote_field flds)) @ [10]"

definition to_csv :: "dataframe \<Rightarrow> pystr" where
  "to_csv df = concat (map writerow (csv_table df))"

text \<open>
  \<^verbatim>\<open>str.encode("ISO-8859-1")\<close>: one byte per code point below 256; the first code point
  from 256 on raises \<^verbatim>\<open>UnicodeEncodeError\<close> at its position.
\<close>

definition encode_latin1 :: "pystr \<Rightarrow> exn + bytes" where
  "encode_latin1 s =
     (if list_all (\<lambda>c. c < 256) s then Inr (map char_of s)
      else Inl (UnicodeEncodeError (length (takeWhile (\<lambda>c. c < 256) s))))"

text \<open>
  Source lines 180-184: the text is written to a \<^verbatim>\<open>StringIO\<close>, and its value is encoded
  for the download button.
\<close>

definition csv_download_data :: "dataframe \<Rightarrow> exn + bytes" where
  "csv_download_data codelist_items_df = encode_latin1 (to_csv codelist_items_df)"

subsection \<open>Printable document\<close>

text \<open>
  The part of reportlab that \<^verbatim>\<open>create_pdf\<close> uses. A text object has a cursor, a font
  and a leading, and collects the lines it is given with the position of each.
  \<^verbatim>\<open>beginText\<close> starts with the font of the canvas (Helvetica 12, leading 14.4);
  \<^verbatim>\<open>setFont(name, size)\<close> sets the leading to 1.2 times the size; \<^verbatim>\<open>textLine\<close> writes at
  the cursor and moves it down by the leading. Nothing in a text object starts a page.
\<close>

type_synonym placed_line = "rat \<times> rat \<times> pystr"

record text_object =
  cursor_x :: rat
  cursor_y :: rat
  font_name :: pystr
  font_size :: rat
  leading :: rat
  placed :: "placed_line list"

definition beginText :: "rat \<Rightarrow> rat \<Rightarrow> text_object" where
  "beginText x y =
     \<lparr>cursor_x = x, cursor_y = y, font_name = S ''Helvetica'', font_size = 12,
      leading = 72 / 5, placed = []\<rparr>"

definition setFont :: "pystr \<Rightarrow> rat \<Rightarrow> text_object \<Rightarrow> text_object" where
  "setFont psfontname sz t =
     t\<lparr>font_name := psfontname, font_size := sz, leading := sz * (6 / 5)\<rparr>"

definition textLine :: "pystr \<Rightarrow> text_object \<Rightarrow> text_object" where
  "textLine s t =
     t\<lparr>placed := placed t @ [(cursor_x t, cursor_y t, s)], cursor_y := cursor_y t - leading t\<rparr>"

text \<open>
  The document \<^verbatim>\<open>c.save()\<close> writes: the page size and, page by page, the lines drawn.
  The page is \<^verbatim>\<open>letter\<close>, 612 by 792 points, with the origin at its lower left corner.
\<close>

record pdf_document =
  pagesize :: "rat \<times> rat"
  pages :: "placed_line list list"

definition letter :: "rat \<times> rat" where
  "letter = (612, 792)"

text \<open>\<^verbatim>\<open>row[label]\<close> on a row of \<^verbatim>\<open>iterrows\<close>; a label the frame lacks raises.\<close>

definition row_get :: "pystr list \<Rightarrow> pyval list \<Rightarrow> pystr \<Rightarrow> exn + pyval" where
  "row_get cols r label =
     (case map_of (zip cols r) label of Some v \<Rightarrow> Inr v | None \<Rightarrow> Inl (KeyError label))"

fun pdf_rows_loop :: "pystr list \<Rightarrow> pyval list list \<Rightarrow> text_object \<Rightarrow> exn + text_object" where
  "pdf_rows_loop cols [] t = Inr t"
| "pdf_rows_loop cols (r # rest) t =
     (case row_get cols r (S ''Code ID'') of
        Inl e \<Rightarrow> Inl e
      | Inr code_id \<Rightarrow>
          (case row_get cols r (S ''Name (en)'') of
             Inl e \<Rightarrow> Inl e
           | Inr name_en \<Rightarrow>
               (case row_get cols r (S ''Name (fr)'') of
                  Inl e \<Rightarrow> Inl e
                | Inr name_fr \<Rightarrow>
                    pdf_rows_loop cols rest
                      (textLine []
                        (textLine (S ''Name (fr): '' @ py_str name_fr)
                          (textLine (S ''Name (en): '' @ py_str name_en)
                            (textLine (S ''Code ID: '' @ py_str code_id) t)))))))"

definition create_pdf :: "dataframe \<Rightarrow> exn + pdf_document" where
  "create_pdf df =
     (let t0 = setFont (S ''Helvetica'') 10 (beginText 50 750);
          t1 = textLine (S ''Codelist Details'') t0;
          t2 = textLine (replicate 50 45) t1
      in case pdf_rows_loop (columns df) (rows df) t2 of
           Inl e \<Rightarrow> Inl e
         | Inr t \<Rightarrow> Inr \<lparr>pagesize = letter, pages = [placed t]\<rparr>)"

section \<open>Reference notions\<close>

text \<open>
  What the claims count, stated by recursion over the tree and without \<open>iter\<close>: the
  number of elements with tag \<open>t\<close> strictly below an element, and those elements in
  document order (a child before what it contains, children from first to last).
\<close>

fun count_under :: "pystr \<Rightarrow> element \<Rightarrow> nat" where
  "count_under t (Element t' a x cs) =
     sum_list (map (\<lambda>c. (if tag c = t then 1 else 0) + count_under t c) cs)"

fun elements_under :: "pystr \<Rightarrow> element \<Rightarrow> element list" where
  "elements_under t (Element t' a x cs) =
     concat (map (\<lambda>c. (if tag c = t then [c] else []) @ elements_under t c) cs)"

text \<open>Two small documents, as \<^verbatim>\<open>ET.fromstring\<close> returns them, for the witnesses.\<close>

definition example_name :: "string \<Rightarrow> string \<Rightarrow> element" where
  "example_name l txt =
     Element (qualified_tag COMMON ''Name'') [XML_LANG \<mapsto> S l] (Some (S txt)) []"

definition example_registry :: element where
  "example_registry =
     Element (S ''{urn:m}Structure'') Map.empty None
       [Element (S ''{urn:m}Codelists'') Map.empty None
          [Element (qualified_tag STRUCTURE ''Codelist'')
             [S ''id'' \<mapsto> S ''CL_SEX'', S ''isFinal'' \<mapsto> S ''True''] None
             [example_name ''en'' ''Sex'', example_name ''fr'' ''Sexe''],
           Element (qualified_tag STRUCTURE ''Codelist'') Map.empty None
             [example_name ''es'' ''Edad'']]]"

definition example_detail :: element where
  "example_detail =
     Element (S ''{urn:m}Structure'') Map.empty None
       [Element (qualified_tag STRUCTURE ''Codelist'') [S ''id'' \<mapsto> S ''CL_SEX''] None
          [example_name ''en'' ''Sex'',
           Element (qualified_tag STRUCTURE ''Code'') [S ''id'' \<mapsto> S ''F''] None
             [example_name ''fr'' ''Femme''],
           Element (qualified_tag STRUCTURE ''Code'') [S ''id'' \<mapsto> S ''M''] None
             [example_name ''en'' ''Male'', example_name ''fr'' ''Homme''],
           Element (qualified_tag STRUCTURE ''Code'') [S ''id'' \<mapsto> S ''U''] None
             [Element (qualified_tag COMMON ''Name'') [XML_LANG \<mapsto> S ''en''] None []]]]"

text \<open>
  A string that reads \<^verbatim>\<open>true\<close> when the case of its letters is ignored: four code
  points, each the small or the capital letter of its position.
\<close>

definition is_true_ignoring_case :: "pystr \<Rightarrow> bool" where
  "is_true_ignoring_case v =
     list_all2 (\<lambda>c p. c = fst p \<or> c = snd p) v [(116, 84), (114, 82), (117, 85), (101, 69)]"

text \<open>A Codelist element whose only name is Spanish.\<close>

definition spanish_only_codelist :: element where
  "spanish_only_codelist =
     Element (qualified_tag STRUCTURE ''Codelist'') [S ''id'' \<mapsto> S ''CL_AGE''] None
       [example_name ''es'' ''Edad'']"

section \<open>Auxiliary facts\<close>

lemma S_eq_iff [simp]: "S a = S b \<longleftrightarrow> a = b"
  by (simp add: S_def inj_map_eq_map inj_on_def)

lemma first_seen_set_cong:
  "set seen = set seen' \<Longrightarrow> first_seen seen xs = first_seen seen' xs"
proof (induction xs arbitrary: seen seen')
  case Nil
  show ?case by simp
next
  case (Cons x xs)
  have m: "x \<in> set seen \<longleftrightarrow> x \<in> set seen'"
    using Cons.prems by simp
  have s: "set (x # seen) = set (x # seen')"
    using Cons.prems by simp
  show ?case
    using Cons.IH [OF Cons.prems] Cons.IH [OF s] m by simp
qed

lemma first_seen_known: "set xs \<subseteq> set seen \<Longrightarrow> first_seen seen xs = []"
  by (induction xs arbitrary: seen) auto

lemma first_seen_distinct:
  "distinct ks \<Longrightarrow> set seen \<inter> set ks = {} \<Longrightarrow> first_seen seen ks = ks"
  by (induction ks arbitrary: seen) auto

lemma first_seen_append:
  "first_seen seen (xs @ ys) = first_seen seen xs @ first_seen (seen @ xs) ys"
proof (induction xs arbitrary: seen)
  case Nil
  then show ?case by simp
next
  case (Cons x xs)
  have a: "first_seen (x # seen @ xs) ys = first_seen (seen @ x # xs) ys"
    by (rule first_seen_set_cong) auto
  have b: "x \<in> set seen \<Longrightarrow> first_seen (seen @ xs) ys = first_seen (seen @ x # xs) ys"
    by (rule first_seen_set_cong) auto
  show ?case using Cons.IH [of seen] Cons.IH [of "x # seen"] a b by auto
qed

lemma columns_same_keys:
  assumes "distinct ks" and "\<And>d. d \<in> set records \<Longrightarrow> map fst d = ks"
  shows "first_seen [] (concat (map (map fst) records)) = (if records = [] then [] else ks)"
proof (cases records)
  case Nil
  then show ?thesis by simp
next
  case (Cons d ds)
  have "set (concat (map (map fst) ds)) \<subseteq> set ks"
    using assms(2) Cons by auto
  then have "first_seen ([] @ ks) (concat (map (map fst) ds)) = []"
    by (simp add: first_seen_known)
  moreover have "map fst d = ks" using assms(2) Cons by simp
  ultimately show ?thesis
    using Cons assms(1) by (simp add: first_seen_append first_seen_distinct)
qed

lemma dict_cells_own_keys:
  assumes "distinct (map fst d)"
  shows "map (dict_cell d) (map fst d) = map snd d"
proof -
  have "\<And>p. p \<in> set d \<Longrightarrow> dict_cell d (fst p) = snd p"
    using assms by (auto simp: dict_cell_def)
  then show ?thesis by (simp add: map_idI comp_def cong: map_cong)
qed

lemma rows_same_keys:
  assumes "distinct ks" and "\<And>d. d \<in> set records \<Longrightarrow> map fst d = ks"
  shows "rows (pd_DataFrame records) = map (map snd) records"
    and "columns (pd_DataFrame records) = (if records = [] then [] else ks)"
proof -
  have c: "first_seen [] (concat (map (map fst) records)) = (if records = [] then [] else ks)"
    by (rule columns_same_keys [OF assms])
  show "columns (pd_DataFrame records) = (if records = [] then [] else ks)"
    by (simp add: pd_DataFrame_def c)
  have "\<And>d. d \<in> set records \<Longrightarrow> map (dict_cell d) ks = map snd d"
    using assms dict_cells_own_keys by metis
  then have "map (\<lambda>d. map (dict_cell d) ks) records = map (map snd) records"
    by (simp cong: map_cong)
  moreover have "rows (pd_DataFrame records) =
      map (\<lambda>d. map (dict_cell d) (if records = [] then [] else ks)) records"
    unfolding pd_DataFrame_def Let_def c by simp
  ultimately show "rows (pd_DataFrame records) = map (map snd) records"
    by (cases "records = []") simp_all
qed

lemma codelist_loop_eq: "codelist_loop es acc = acc @ map codelist_record es"
  by (induction es arbitrary: acc) auto

lemma code_loop_eq: "code_loop es acc = acc @ map code_record es"
  by (induction es arbitrary: acc) auto

lemma count_under_iter:
  "length (filter (\<lambda>e. tag e = t) (tl (iter e))) = count_under t e"
proof (induction e rule: iter.induct)
  case (1 t' a x cs)
  have "\<And>c. c \<in> set cs \<Longrightarrow>
      length (filter (\<lambda>e. tag e = t) (iter c)) = (if tag c = t then 1 else 0) + count_under t c"
  proof -
    fix c assume c: "c \<in> set cs"
    obtain u b y ds where e: "c = Element u b y ds" by (cases c)
    show "length (filter (\<lambda>e. tag e = t) (iter c)) = (if tag c = t then 1 else 0) + count_under t c"
      using 1 [OF c] e by simp
  qed
  then show ?case
    by (simp add: filter_concat length_concat comp_def cong: map_cong)
qed


lemma findall_elements_under: "findall t e = elements_under t e"
proof (induction e rule: iter.induct)
  case (1 t' a x cs)
  have "\<And>c. c \<in> set cs \<Longrightarrow>
      filter (\<lambda>e. tag e = t) (iter c) = (if tag c = t then [c] else []) @ elements_under t c"
  proof -
    fix c assume c: "c \<in> set cs"
    obtain u b y ds where e: "c = Element u b y ds" by (cases c)
    show "filter (\<lambda>e. tag e = t) (iter c) = (if tag c = t then [c] else []) @ elements_under t c"
      using 1 [OF c] e by (simp add: findall_def)
  qed
  then show ?case
    by (simp add: findall_def filter_concat comp_def cong: map_cong)
qed

lemma length_findall: "length (findall t e) = count_under t e"
  using count_under_iter [of t e] by (simp add: findall_def)

lemma codelist_record_keys:
  "map fst (codelist_record e) =
     [S ''Codelist ID'', S ''Agency ID'', S ''Version'', S ''Is Final'', S ''Structure URL'',
      S ''Name (en)'', S ''Name (fr)'']"
  by (simp add: codelist_record_def Let_def)

lemma code_record_keys:
  "map fst (code_record e) = [S ''Code ID'', S ''Name (en)'', S ''Name (fr)'']"
  by (simp add: code_record_def Let_def)

lemma registry_frame_rows:
  "rows (pd_DataFrame (map codelist_record es)) = map (\<lambda>e. map snd (codelist_record e)) es"
proof -
  have "rows (pd_DataFrame (map codelist_record es)) = map (map snd) (map codelist_record es)"
    by (rule rows_same_keys(1) [where ks = "map fst (codelist_record undefined)"])
       (auto simp: codelist_record_keys)
  then show ?thesis by (simp add: comp_def)
qed

lemma detail_frame_rows:
  "rows (pd_DataFrame (map code_record es)) = map (\<lambda>e. map snd (code_record e)) es"
proof -
  have "rows (pd_DataFrame (map code_record es)) = map (map snd) (map code_record es)"
    by (rule rows_same_keys(1) [where ks = "map fst (code_record undefined)"])
       (auto simp: code_record_keys)
  then show ?thesis by (simp add: comp_def)
qed

lemma fetch_parsed:
  assumes "requests_get API_ENDPOINT = Inr xml" and "fromstring xml = Inr r"
  shows "fetch_codelists_from_xml requests_get fromstring =
    Inr (pd_DataFrame (map codelist_record (findall (qualified_tag STRUCTURE ''Codelist'') r)), [])"
  using assms by (simp add: fetch_codelists_from_xml_def codelist_loop_eq)

lemma items_parsed:
  assumes "fromstring xml = Inr r"
  shows "parse_codelist_items fromstring xml =
    Inr (pd_DataFrame (map code_record (findall (qualified_tag STRUCTURE ''Code'') r)), [])"
  using assms by (simp add: parse_codelist_items_def code_loop_eq)

lemma S_true: "S ''true'' = [116, 114, 117, 101]"
  by (simp add: S_def)

lemma lower_cp_cases:
  "lower_cp c = 116 \<longleftrightarrow> c = 116 \<or> c = 84"
  "lower_cp c = 114 \<longleftrightarrow> c = 114 \<or> c = 82"
  "lower_cp c = 117 \<longleftrightarrow> c = 117 \<or> c = 85"
  "lower_cp c = 101 \<longleftrightarrow> c = 101 \<or> c = 69"
  by (auto simp: lower_cp_def)

lemma py_lower_true: "py_lower v = S ''true'' \<longleftrightarrow> is_true_ignoring_case v"
  unfolding py_lower_def S_true is_true_ignoring_case_def
  by (auto simp: map_eq_Cons_conv list_all2_Cons2 lower_cp_cases)

lemma names_loop_lookup:
  "names_loop ns m l =
     (case filter (\<lambda>n. lang_of n = l) ns of
        [] \<Rightarrow> m l
      | f # fs \<Rightarrow> Some (elem_text (last (f # fs))))"
proof (induction ns arbitrary: m)
  case Nil
  show ?case by simp
next
  case (Cons n ns)
  show ?case
    by (cases "filter (\<lambda>n. lang_of n = l) ns") (auto simp: Cons.IH)
qed

lemma extract_names_lookup:
  "extract_names e l =
     (case filter (\<lambda>n. lang_of n = l) (elements_under (qualified_tag COMMON ''Name'') e) of
        [] \<Rightarrow> None
      | f # fs \<Rightarrow> Some (elem_text (last (f # fs))))"
  by (simp add: extract_names_def names_loop_lookup findall_elements_under)

lemma codelist_record_lookup:
  "map_of (codelist_record e) (S ''Codelist ID'') =
     Some (PyStr (attrib_get e (S ''id'') (S ''Unknown ID'')))"
  "map_of (codelist_record e) (S ''Is Final'') =
     Some (PyBool (py_lower (attrib_get e (S ''isFinal'') (S ''Unknown'')) = S ''true''))"
  "map_of (codelist_record e) (S ''Name (en)'') =
     Some (names_get (extract_names e) (S ''en'') (S ''N/A''))"
  "map_of (codelist_record e) (S ''Name (fr)'') =
     Some (names_get (extract_names e) (S ''fr'') (S ''N/A''))"
  by (simp_all add: codelist_record_def Let_def)

lemma code_record_lookup:
  "map_of (code_record e) (S ''Code ID'') =
     Some (PyStr (attrib_get e (S ''id'') (S ''Unknown Code'')))"
  "map_of (code_record e) (S ''Name (en)'') =
     Some (names_get (extract_names e) (S ''en'') (S ''N/A''))"
  "map_of (code_record e) (S ''Name (fr)'') =
     Some (names_get (extract_names e) (S ''fr'') (S ''N/A''))"
  by (simp_all add: code_record_def Let_def)

lemma not_true_Unknown: "\<not> is_true_ignoring_case (S ''Unknown'')"
  by (simp add: is_true_ignoring_case_def S_def)

section \<open>The claims\<close>

text \<open>
  \<^bold>\<open>C1.\<close> When the registry document parses, the registry parse returns a frame with
  exactly one row per element tagged Codelist in the structure namespace strictly below
  the root, at any depth, and the rows are the records of these elements in document
  order; no message is written. The same holds for the detail parse and the elements
  tagged Code.
\<close>

theorem one_record_per_element_in_document_order:
  assumes "requests_get API_ENDPOINT = Inr registry_xml"
    and "fromstring registry_xml = Inr registry_root"
    and "fromstring detail_xml = Inr detail_root"
  shows "(\<exists>df. fetch_codelists_from_xml requests_get fromstring = Inr (df, [])
            \<and> length (rows df) = count_under (qualified_tag STRUCTURE ''Codelist'') registry_root
            \<and> rows df = map (\<lambda>e. map snd (codelist_record e))
                 (elements_under (qualified_tag STRUCTURE ''Codelist'') registry_root))
       \<and> (\<exists>df. parse_codelist_items fromstring detail_xml = Inr (df, [])
            \<and> length (rows df) = count_under (qualified_tag STRUCTURE ''Code'') detail_root
            \<and> rows df = map (\<lambda>e. map snd (code_record e))
                 (elements_under (qualified_tag STRUCTURE ''Code'') detail_root))"
proof (intro conjI)
  let ?ct = "qualified_tag STRUCTURE ''Codelist''"
  let ?df = "pd_DataFrame (map codelist_record (findall ?ct registry_root))"
  have "fetch_codelists_from_xml requests_get fromstring = Inr (?df, [])"
    using assms(1) assms(2)
    by (simp add: fetch_parsed [where requests_get = requests_get and xml = registry_xml
          and fromstring = fromstring and r = registry_root])
  moreover have "length (rows ?df) = count_under ?ct registry_root"
    by (simp add: registry_frame_rows length_findall)
  moreover have "rows ?df = map (\<lambda>e. map snd (codelist_record e)) (elements_under ?ct registry_root)"
    by (simp add: registry_frame_rows findall_elements_under)
  ultimately show "\<exists>df. fetch_codelists_from_xml requests_get fromstring = Inr (df, [])
            \<and> length (rows df) = count_under ?ct registry_root
            \<and> rows df = map (\<lambda>e. map snd (codelist_record e)) (elements_under ?ct registry_root)"
    by blast
next
  let ?ct = "qualified_tag STRUCTURE ''Code''"
  let ?df = "pd_DataFrame (map code_record (findall ?ct detail_root))"
  have "parse_codelist_items fromstring detail_xml = Inr (?df, [])"
    using assms(3)
    by (simp add: items_parsed [where fromstring = fromstring and xml = detail_xml
          and r = detail_root])
  moreover have "length (rows ?df) = count_under ?ct detail_root"
    by (simp add: detail_frame_rows length_findall)
  moreover have "rows ?df = map (\<lambda>e. map snd (code_record e)) (elements_under ?ct detail_root)"
    by (simp add: detail_frame_rows findall_elements_under)
  ultimately show "\<exists>df. parse_codelist_items fromstring detail_xml = Inr (df, [])
            \<and> length (rows df) = count_under ?ct detail_root
            \<and> rows df = map (\<lambda>e. map snd (code_record e)) (elements_under ?ct detail_root)"
    by blast
qed

theorem one_record_per_element_witness:
  "(\<exists>df. fetch_codelists_from_xml (\<lambda>url. Inr ''registry'')
            (\<lambda>xml. if xml = ''registry'' then Inr example_registry else Inr example_detail)
          = Inr (df, [])
        \<and> length (rows df) = 2
        \<and> rows df = map (\<lambda>e. map snd (codelist_record e))
             (elements_under (qualified_tag STRUCTURE ''Codelist'') example_registry))
   \<and> (\<exists>df. parse_codelist_items
            (\<lambda>xml. if xml = ''registry'' then Inr example_registry else Inr example_detail)
            ''detail''
          = Inr (df, [])
        \<and> length (rows df) = 3
        \<and> rows df = map (\<lambda>e. map snd (code_record e))
             (elements_under (qualified_tag STRUCTURE ''Code'') example_detail))"
proof -
  have a: "count_under (qualified_tag STRUCTURE ''Codelist'') example_registry = 2"
    by (simp add: example_registry_def example_name_def qualified_tag_def)
  have b: "count_under (qualified_tag STRUCTURE ''Code'') example_detail = 3"
    by (simp add: example_detail_def example_name_def qualified_tag_def)
  show ?thesis
    using one_record_per_element_in_document_order
      [where requests_get = "\<lambda>url. Inr ''registry''" and registry_xml = "''registry''"
         and fromstring = "\<lambda>xml. if xml = ''registry'' then Inr example_registry
                                  else Inr example_detail"
         and registry_root = example_registry and detail_xml = "''detail''"
         and detail_root = example_detail]
    by (simp add: a b)
qed

text \<open>
  \<^bold>\<open>C3.\<close> When the content is not well-formed, so that the XML parser raises
  \<^verbatim>\<open>ParseError\<close> with a diagnostic, each parser returns normally: it writes one error
  message that carries the diagnostic and returns the empty frame, which has no row and
  no column. The witness is the truncated input \<^verbatim>\<open><Codelist\<close>, on which expat reports
  an unclosed token.
\<close>

theorem malformed_xml_is_reported:
  assumes "requests_get API_ENDPOINT = Inr xml" and "fromstring xml = Inl (ParseError diagnostic)"
  shows "fetch_codelists_from_xml requests_get fromstring =
           Inr (pd_DataFrame [], [StError (S ''Error parsing XML: '' @ diagnostic)])
       \<and> parse_codelist_items fromstring xml =
           Inr (pd_DataFrame [], [StError (S ''Error parsing codelist XML: '' @ diagnostic)])
       \<and> rows (pd_DataFrame []) = [] \<and> columns (pd_DataFrame []) = []"
  using assms
  by (simp add: fetch_codelists_from_xml_def parse_codelist_items_def pd_DataFrame_def)

theorem malformed_xml_is_reported_witness:
  "fetch_codelists_from_xml (\<lambda>url. Inr ''<Codelist'')
       (\<lambda>xml. Inl (ParseError (S ''unclosed token: line 1, column 0'')))
     = Inr (pd_DataFrame [],
            [StError (S ''Error parsing XML: '' @ S ''unclosed token: line 1, column 0'')])
   \<and> parse_codelist_items (\<lambda>xml. Inl (ParseError (S ''unclosed token: line 1, column 0'')))
       ''<Codelist''
     = Inr (pd_DataFrame [],
            [StError (S ''Error parsing codelist XML: '' @ S ''unclosed token: line 1, column 0'')])
   \<and> rows (pd_DataFrame []) = [] \<and> columns (pd_DataFrame []) = []"
  using malformed_xml_is_reported
    [where requests_get = "\<lambda>url. Inr ''<Codelist''" and xml = "''<Codelist''"
       and fromstring = "\<lambda>xml. Inl (ParseError (S ''unclosed token: line 1, column 0''))"
       and diagnostic = "S ''unclosed token: line 1, column 0''"]
  by simp

text \<open>
  \<^bold>\<open>C4.\<close> Every Codelist element yields a record with the seven fields. Without an
  \<^verbatim>\<open>id\<close> attribute the record's id is \<^verbatim>\<open>Unknown ID\<close>. The field \<^verbatim>\<open>Is Final\<close> is the
  comparison of the lower-cased attribute text (\<^verbatim>\<open>Unknown\<close> when the attribute is
  missing) with \<^verbatim>\<open>true\<close>: false when the attribute is missing, and for an attribute
  text \<open>v\<close> true exactly when \<open>v\<close> reads \<^verbatim>\<open>true\<close> with the case ignored.
\<close>

theorem codelist_sentinels:
  "map fst (codelist_record codelist) =
     [S ''Codelist ID'', S ''Agency ID'', S ''Version'', S ''Is Final'', S ''Structure URL'',
      S ''Name (en)'', S ''Name (fr)'']
   \<and> (attrib codelist (S ''id'') = None \<longrightarrow>
        map_of (codelist_record codelist) (S ''Codelist ID'') = Some (PyStr (S ''Unknown ID'')))
   \<and> map_of (codelist_record codelist) (S ''Is Final'') =
        Some (PyBool (py_lower (case attrib codelist (S ''isFinal'') of
                                  Some v \<Rightarrow> v | None \<Rightarrow> S ''Unknown'') = S ''true''))
   \<and> (attrib codelist (S ''isFinal'') = None \<longrightarrow>
        map_of (codelist_record codelist) (S ''Is Final'') = Some (PyBool False))
   \<and> (\<forall>v. attrib codelist (S ''isFinal'') = Some v \<longrightarrow>
        map_of (codelist_record codelist) (S ''Is Final'') =
          Some (PyBool (is_true_ignoring_case v)))"
  by (simp add: codelist_record_keys codelist_record_lookup attrib_get_def py_lower_true
      not_true_Unknown)

theorem codelist_sentinels_witness:
  "map_of (codelist_record (Element (qualified_tag STRUCTURE ''Codelist'') Map.empty None []))
       (S ''Codelist ID'') = Some (PyStr (S ''Unknown ID''))
   \<and> map_of (codelist_record (Element (qualified_tag STRUCTURE ''Codelist'') Map.empty None []))
       (S ''Is Final'') = Some (PyBool False)
   \<and> map_of (codelist_record (Element (qualified_tag STRUCTURE ''Codelist'')
          [S ''isFinal'' \<mapsto> S ''TrUE''] None []))
       (S ''Is Final'') = Some (PyBool True)
   \<and> map_of (codelist_record (Element (qualified_tag STRUCTURE ''Codelist'')
          [S ''isFinal'' \<mapsto> S ''1''] None []))
       (S ''Is Final'') = Some (PyBool False)"
proof -
  let ?e0 = "Element (qualified_tag STRUCTURE ''Codelist'') Map.empty None []"
  let ?e1 = "Element (qualified_tag STRUCTURE ''Codelist'') [S ''isFinal'' \<mapsto> S ''TrUE''] None []"
  let ?e2 = "Element (qualified_tag STRUCTURE ''Codelist'') [S ''isFinal'' \<mapsto> S ''1''] None []"
  have t: "is_true_ignoring_case (S ''TrUE'')" "\<not> is_true_ignoring_case (S ''1'')"
    by (simp_all add: is_true_ignoring_case_def S_def)
  have "map_of (codelist_record ?e0) (S ''Codelist ID'') = Some (PyStr (S ''Unknown ID''))"
    using conjunct1 [OF conjunct2 [OF codelist_sentinels [of ?e0]]] by simp
  moreover have "map_of (codelist_record ?e0) (S ''Is Final'') = Some (PyBool False)"
    using conjunct1 [OF conjunct2 [OF conjunct2 [OF conjunct2 [OF codelist_sentinels [of ?e0]]]]]
    by simp
  moreover have "map_of (codelist_record ?e1) (S ''Is Final'') = Some (PyBool True)"
    using conjunct2 [OF conjunct2 [OF conjunct2 [OF conjunct2 [OF codelist_sentinels [of ?e1]]]]]
      t(1)
    by simp
  moreover have "map_of (codelist_record ?e2) (S ''Is Final'') = Some (PyBool False)"
    using conjunct2 [OF conjunct2 [OF conjunct2 [OF conjunct2 [OF codelist_sentinels [of ?e2]]]]]
      t(2)
    by simp
  ultimately show ?thesis by blast
qed

text \<open>
  \<^bold>\<open>C9.\<close> When the Name elements below an element that carry the language \<^verbatim>\<open>en\<close> end
  with one that has no text (in particular when the only such Name is empty), the
  dictionary of names holds \<^verbatim>\<open>None\<close> for \<^verbatim>\<open>en\<close>, and so does the field \<^verbatim>\<open>Name (en)\<close>
  of the record of either parser and the cell of the frame built from it: neither
  \<^verbatim>\<open>N/A\<close> nor the empty string.
\<close>

theorem empty_name_is_None:
  assumes "filter (\<lambda>n. lang_of n = S ''en'') (elements_under (qualified_tag COMMON ''Name'') e)
             = ns"
    and "ns \<noteq> []" and "elem_text (last ns) = None"
  shows "extract_names e (S ''en'') = Some None
       \<and> map_of (code_record e) (S ''Name (en)'') = Some PyNone
       \<and> map_of (codelist_record e) (S ''Name (en)'') = Some PyNone
       \<and> dict_cell (code_record e) (S ''Name (en)'') = PyNone
       \<and> dict_cell (codelist_record e) (S ''Name (en)'') = PyNone
       \<and> PyNone \<noteq> PyStr (S ''N/A'') \<and> PyNone \<noteq> PyStr []"
proof -
  obtain f fs where ns: "ns = f # fs" using assms(2) by (cases ns) auto
  have n: "extract_names e (S ''en'') = Some None"
    using assms(1) assms(3) unfolding ns by (simp add: extract_names_lookup)
  then show ?thesis
    by (simp add: code_record_lookup codelist_record_lookup names_get_def dict_cell_def)
qed

theorem empty_name_is_None_witness:
  "map_of (code_record (Element (qualified_tag STRUCTURE ''Code'') [S ''id'' \<mapsto> S ''U''] None
       [Element (qualified_tag COMMON ''Name'') [XML_LANG \<mapsto> S ''en''] None []]))
     (S ''Name (en)'') = Some PyNone"
proof -
  let ?e = "Element (qualified_tag STRUCTURE ''Code'') [S ''id'' \<mapsto> S ''U''] None
       [Element (qualified_tag COMMON ''Name'') [XML_LANG \<mapsto> S ''en''] None []]"
  let ?n = "Element (qualified_tag COMMON ''Name'') [XML_LANG \<mapsto> S ''en''] None []"
  have f: "filter (\<lambda>n. lang_of n = S ''en'') (elements_under (qualified_tag COMMON ''Name'') ?e)
      = [?n]"
    by (simp add: lang_of_def attrib_get_def)
  show ?thesis
    using empty_name_is_None [of ?e "[?n]"] f by simp
qed

text \<open>
  \<^bold>\<open>C5\<close>, as stated, fails: the record keeps two fixed name fields, not the mapping. For
  a Codelist whose only Name is Spanish the mapping holds \<^verbatim>\<open>es\<close>, but the record has
  no field for it and carries \<^verbatim>\<open>N/A\<close> under \<^verbatim>\<open>Name (en)\<close> and \<^verbatim>\<open>Name (fr)\<close>, two
  languages that were not found.
\<close>

theorem record_drops_other_languages:
  "extract_names spanish_only_codelist (S ''es'') = Some (Some (S ''Edad''))
   \<and> map snd (codelist_record spanish_only_codelist) =
       [PyStr (S ''CL_AGE''), PyStr (S ''Unknown Agency''), PyStr (S ''Unknown Version''),
        PyBool False, PyStr (S ''Unknown URL''), PyStr (S ''N/A''), PyStr (S ''N/A'')]
   \<and> extract_names spanish_only_codelist (S ''en'') = None
   \<and> extract_names spanish_only_codelist (S ''fr'') = None"
proof -
  have n: "extract_names spanish_only_codelist =
      [S ''es'' \<mapsto> Some (S ''Edad'')]"
    by (simp add: extract_names_def spanish_only_codelist_def example_name_def findall_def
        lang_of_def attrib_get_def)
  have a: "attrib spanish_only_codelist = [S ''id'' \<mapsto> S ''CL_AGE'']"
    by (simp add: spanish_only_codelist_def)
  show ?thesis
    by (simp add: n codelist_record_def Let_def attrib_get_def a names_get_def py_lower_true
        not_true_Unknown)
qed

text \<open>
  \<^bold>\<open>C5\<close>, amended. For every Codelist element the registry parse builds a mapping with
  one entry per language tag among the Name elements below it (the tag read from
  \<^verbatim>\<open>xml:lang\<close>, \<^verbatim>\<open>unknown\<close> when absent), whose value is the text of the last such Name
  in document order. The record has the seven fields and carries of this mapping the
  entries for \<^verbatim>\<open>en\<close> and \<^verbatim>\<open>fr\<close> only, as \<^verbatim>\<open>Name (en)\<close> and \<^verbatim>\<open>Name (fr)\<close>, each
  \<^verbatim>\<open>N/A\<close> when the mapping has no such entry.
\<close>

theorem names_mapping_and_record:
  "extract_names codelist l =
     (case filter (\<lambda>n. lang_of n = l) (elements_under (qualified_tag COMMON ''Name'') codelist) of
        [] \<Rightarrow> None
      | f # fs \<Rightarrow> Some (elem_text (last (f # fs))))
   \<and> lang_of n = (case attrib n XML_LANG of Some v \<Rightarrow> v | None \<Rightarrow> S ''unknown'')
   \<and> map fst (codelist_record codelist) =
       [S ''Codelist ID'', S ''Agency ID'', S ''Version'', S ''Is Final'', S ''Structure URL'',
        S ''Name (en)'', S ''Name (fr)'']
   \<and> map_of (codelist_record codelist) (S ''Name (en)'') =
       Some (case extract_names codelist (S ''en'') of
               None \<Rightarrow> PyStr (S ''N/A'') | Some None \<Rightarrow> PyNone | Some (Some s) \<Rightarrow> PyStr s)
   \<and> map_of (codelist_record codelist) (S ''Name (fr)'') =
       Some (case extract_names codelist (S ''fr'') of
               None \<Rightarrow> PyStr (S ''N/A'') | Some None \<Rightarrow> PyNone | Some (Some s) \<Rightarrow> PyStr s)"
  by (simp add: extract_names_lookup codelist_record_keys codelist_record_lookup names_get_def
      lang_of_def attrib_get_def)

end
